theory Spec2Isabelle
  imports Main
begin

section \<open>Strings and the character tables of the Python runtime\<close>

text \<open>
  A Python \<open>str\<close> is a sequence of Unicode code points, so a string is a list of
  natural numbers here and its length counts code points, as \<open>len\<close> and slicing do.
  The literals of \<open>app.py\<close> are ASCII; \<open>py\<close> turns such a literal into its code points.
\<close>

type_synonym pystr = "nat list"

definition py :: "string \<Rightarrow> pystr" where
  "py s = map of_char s"

text \<open>
  \<open>str.isalnum\<close>, \<open>str.split()\<close> and \<open>str.strip()\<close> consult the Unicode character
  database of the interpreter, which is not part of the repository. The two tables the
  program uses are parameters of the model.
\<close>

record unicode_db =
  isalnum :: "nat \<Rightarrow> bool"
  isspace :: "nat \<Rightarrow> bool"

definition ascii_alnum :: "nat \<Rightarrow> bool" where
  "ascii_alnum c = ((48 \<le> c \<and> c \<le> 57) \<or> (65 \<le> c \<and> c \<le> 90) \<or> (97 \<le> c \<and> c \<le> 122))"

definition ascii_space :: "nat \<Rightarrow> bool" where
  "ascii_space c = ((9 \<le> c \<and> c \<le> 13) \<or> (28 \<le> c \<and> c \<le> 32))"

text \<open>
  What is assumed of the tables: on the ASCII range they are the tables of CPython
  (digits and letters are alphanumeric; tab, line feed, vertical tab, form feed,
  carriage return, the four separators 28..31 and the space are whitespace), and no
  code point is both alphanumeric and whitespace.
\<close>

definition py_tables :: "unicode_db \<Rightarrow> bool" where
  "py_tables db =
     ((\<forall>c. c < 128 \<longrightarrow> isalnum db c = ascii_alnum c) \<and>
      (\<forall>c. c < 128 \<longrightarrow> isspace db c = ascii_space c) \<and>
      (\<forall>c. isalnum db c \<longrightarrow> \<not> isspace db c))"

text \<open>The tables restricted to ASCII: nothing beyond code point 127 is classified.\<close>

definition ascii_db :: unicode_db where
  "ascii_db = \<lparr> isalnum = (\<lambda>c. c < 128 \<and> ascii_alnum c),
                isspace = (\<lambda>c. c < 128 \<and> ascii_space c) \<rparr>"

subsection \<open>The string methods used by the program\<close>

text \<open>
  \<open>s.split()\<close> without arguments: skip whitespace, take the maximal run of
  non-whitespace as a word, repeat; no empty word is produced.
\<close>

function split_ws :: "(nat \<Rightarrow> bool) \<Rightarrow> pystr \<Rightarrow> pystr list" where
  "split_ws sp s =
     (let s' = dropWhile sp s
      in if s' = [] then []
         else takeWhile (\<lambda>c. \<not> sp c) s' # split_ws sp (dropWhile (\<lambda>c. \<not> sp c) s'))"
  by pat_completeness auto

lemma dropWhile_shorter:
  "xs \<noteq> [] \<Longrightarrow> P (hd xs) \<Longrightarrow> length (dropWhile P xs) < length xs"
  by (cases xs) (simp_all add: length_dropWhile_le le_imp_less_Suc)

lemma split_ws_decreases:
  assumes "dropWhile sp s \<noteq> []"
  shows "length (dropWhile (\<lambda>c. \<not> sp c) (dropWhile sp s)) < length s"
proof -
  have "\<not> sp (hd (dropWhile sp s))"
    using assms by (rule hd_dropWhile)
  then have "length (dropWhile (\<lambda>c. \<not> sp c) (dropWhile sp s)) < length (dropWhile sp s)"
    using assms by (intro dropWhile_shorter) simp_all
  also have "\<dots> \<le> length s"
    by (rule length_dropWhile_le)
  finally show ?thesis .
qed

termination split_ws
proof (relation "measure (\<lambda>(sp, s). length s)")
  show "wf (measure (\<lambda>(sp, s). length s))" by simp
next
  fix sp :: "nat \<Rightarrow> bool" and s x :: pystr
  assume "x = dropWhile sp s" and "x \<noteq> []"
  then show "((sp, dropWhile (\<lambda>c. \<not> sp c) x), sp, s) \<in> measure (\<lambda>(sp, s). length s)"
    using split_ws_decreases [of sp s] by simp
qed

declare split_ws.simps [simp del]

text \<open>\<open>sep.join(words)\<close>.\<close>

fun join :: "pystr \<Rightarrow> pystr list \<Rightarrow> pystr" where
  "join sep [] = []"
| "join sep [w] = w"
| "join sep (w # v # ws) = w @ sep @ join sep (v # ws)"

text \<open>\<open>s.strip(chars)\<close> removes the characters of \<open>chars\<close> from both ends.\<close>

definition strip_chars :: "pystr \<Rightarrow> pystr \<Rightarrow> pystr" where
  "strip_chars chars s =
     rev (dropWhile (\<lambda>c. c \<in> set chars) (rev (dropWhile (\<lambda>c. c \<in> set chars) s)))"

text \<open>\<open>s.strip()\<close> removes whitespace from both ends.\<close>

definition strip :: "unicode_db \<Rightarrow> pystr \<Rightarrow> pystr" where
  "strip db s = rev (dropWhile (isspace db) (rev (dropWhile (isspace db) s)))"

section \<open>sanitize\_filename\<close>

text \<open>
  The loop body of \<open>sanitize_filename\<close>: an alphanumeric character, a space (32) and a
  hyphen (45) are kept, every other character becomes a space.
\<close>

definition clean_char :: "unicode_db \<Rightarrow> nat \<Rightarrow> nat" where
  "clean_char db ch = (if isalnum db ch \<or> ch = 32 \<or> ch = 45 then ch else 32)"

definition sanitize_filename :: "unicode_db \<Rightarrow> pystr \<Rightarrow> pystr" where
  "sanitize_filename db name =
     (if name = [] then py ''download''
      else
        let cleaned = map (clean_char db) name;
            base = join (py ''-'') (split_ws (isspace db) cleaned);
            stripped = strip_chars (py ''-'') base
        in take 120 (if stripped = [] then py ''download'' else stripped))"


section \<open>pick\_thumbnail\<close>

text \<open>
  The metadata dictionary returned by the extraction engine, with the keys the program
  reads. A key that is missing and a key whose value is \<open>None\<close> are both \<open>None\<close>
  here: \<open>dict.get\<close> gives \<open>None\<close> for both.
\<close>

record thumb =
  th_url :: "pystr option"
  th_width :: "int option"
  th_height :: "int option"

record info =
  info_thumbnail :: "pystr option"
  info_thumbnails :: "thumb list option"
  info_id :: "pystr option"
  info_title :: "pystr option"

text \<open>The inner function \<open>norm\<close>: a scheme-relative URL gets the scheme \<open>https:\<close>.\<close>

definition norm :: "pystr \<Rightarrow> pystr" where
  "norm u = (if take 2 u = py ''//'' then py ''https:'' @ u else u)"

text \<open>\<open>v or 0\<close> followed by \<open>int\<close>, for a value that is an integer or \<open>None\<close>.\<close>

definition or_zero :: "int option \<Rightarrow> int" where
  "or_zero v = (case v of None \<Rightarrow> 0 | Some n \<Rightarrow> n)"

text \<open>\<open>v or ""\<close> for a value that is a string or \<open>None\<close>.\<close>

definition or_empty :: "pystr option \<Rightarrow> pystr" where
  "or_empty v = (case v of None \<Rightarrow> [] | Some s \<Rightarrow> s)"

text \<open>
  The \<open>for th in thumbs\<close> loop, with the pair \<open>(best_url, best_area)\<close> as its state:
  an entry without a URL is skipped, and an entry replaces the best one only when its
  area is strictly larger.
\<close>

fun best_thumb :: "thumb list \<Rightarrow> pystr option \<times> int \<Rightarrow> pystr option \<times> int" where
  "best_thumb [] acc = acc"
| "best_thumb (th # ths) (best_url, best_area) =
     (if or_empty (th_url th) = [] then best_thumb ths (best_url, best_area)
      else
        let w = or_zero (th_width th);
            h = or_zero (th_height th);
            area = w * h
        in if area > best_area then best_thumb ths (Some (norm (or_empty (th_url th))), area)
           else best_thumb ths (best_url, best_area))"

definition pick_thumbnail :: "info \<Rightarrow> pystr option" where
  "pick_thumbnail i =
     (if or_empty (info_thumbnail i) \<noteq> [] then Some (norm (or_empty (info_thumbnail i)))
      else
        let thumbs = (case info_thumbnails i of None \<Rightarrow> [] | Some l \<Rightarrow> l);
            best_url = fst (best_thumb thumbs (None, - 1))
        in if or_empty best_url \<noteq> [] then best_url
           else if or_empty (info_id i) \<noteq> []
             then Some (py ''https://img.youtube.com/vi/'' @ or_empty (info_id i) @ py ''/hqdefault.jpg'')
           else None)"

section \<open>Events, effects and responses\<close>

text \<open>
  The payloads of \<open>socketio.emit("progress", payload, to=room)\<close>, by their \<open>status\<close>:
  \<open>downloading\<close> (percent, speed, eta, downloaded, total), \<open>finished\<close>,
  \<open>ready\<close> (url, filename) and \<open>error\<close> (message).
\<close>

datatype event =
    Downloading pystr pystr pystr "int option" "int option"
  | Finished
  | Ready pystr pystr
  | Error pystr

record entry =
  entry_path :: pystr
  entry_name :: pystr

text \<open>
  What a handler or the background task does to the outside, in the order of the source:
  a call of \<open>ydl.extract_info(url, download=flag)\<close>, an emit to a room, the assignment
  \<open>DOWNLOAD_MAP[token] = entry\<close>, and the start of a thread running \<open>run_download\<close>.
  The option dictionaries handed to the engine and the \<open>print\<close> calls, which write to
  the server's log only, are left out.
\<close>

datatype effect =
    ExtractInfo pystr bool
  | Emit pystr event
  | Register pystr entry
  | StartThread pystr pystr pystr

text \<open>
  A Flask response: a text body with a status, a JSON error object with a status, the
  JSON object \<open>{"started": true}\<close>, the JSON object with title and thumbnail, and
  \<open>send_file(path, download_name)\<close>.
\<close>

datatype response =
    Text pystr nat
  | JsonError pystr nat
  | JsonStarted
  | JsonInfo "pystr option" "pystr option"
  | SendFile pystr pystr

text \<open>A call into the engine either raises (with the text of the exception) or returns.\<close>

datatype 'a outcome = Raises pystr | Returns 'a

section \<open>get\_info\<close>

definition get_info :: "unicode_db \<Rightarrow> info outcome \<Rightarrow> pystr option \<Rightarrow> response \<times> effect list" where
  "get_info db engine data_url =
     (let url = strip db (or_empty data_url)
      in if url = [] then (JsonError (py ''No URL provided'') 400, [])
         else
           (case engine of
              Returns i \<Rightarrow> (JsonInfo (info_title i) (pick_thumbnail i), [ExtractInfo url False])
            | Raises e \<Rightarrow> (JsonError (py ''Could not fetch video info'') 500, [ExtractInfo url False])))"

section \<open>The progress hook\<close>

definition ansi_param :: "nat \<Rightarrow> bool" where
  "ansi_param c = ((48 \<le> c \<and> c \<le> 57) \<or> c = 59)"

text \<open>
  \<open>ANSI_RE.sub('', s)\<close> for the pattern \<open>ESC [ [0-9;]* m\<close>: at an escape character (27)
  followed by a bracket (91), the digits and semicolons are skipped, and if an \<open>m\<close> (109)
  follows, the whole sequence is dropped; otherwise the character stays.
\<close>

function ansi_sub :: "pystr \<Rightarrow> pystr" where
  "ansi_sub [] = []"
| "ansi_sub (c # cs) =
     (if c = 27 \<and> take 1 cs = [91] \<and> take 1 (dropWhile ansi_param (tl cs)) = [109]
      then ansi_sub (tl (dropWhile ansi_param (tl cs)))
      else c # ansi_sub cs)"
  by pat_completeness auto

termination ansi_sub
proof (relation "measure length")
  show "wf (measure length)" by simp
next
  fix c :: nat and cs :: pystr
  have "length (tl (dropWhile ansi_param (tl cs))) \<le> length (dropWhile ansi_param (tl cs))"
    by simp
  also have "\<dots> \<le> length (tl cs)"
    by (rule length_dropWhile_le)
  also have "\<dots> \<le> length cs"
    by simp
  finally show "(tl (dropWhile ansi_param (tl cs)), c # cs) \<in> measure length"
    by simp
next
  fix c :: nat and cs :: pystr
  show "(cs, c # cs) \<in> measure length" by simp
qed

definition strip_ansi :: "pystr option \<Rightarrow> pystr" where
  "strip_ansi s = ansi_sub (or_empty s)"

text \<open>The dictionary the engine passes to a progress hook.\<close>

record hook_dict =
  d_status :: "pystr option"
  d_percent_str :: "pystr option"
  d_speed_str :: "pystr option"
  d_eta_str :: "pystr option"
  d_downloaded_bytes :: "int option"
  d_total_bytes :: "int option"
  d_total_bytes_estimate :: "int option"

text \<open>
  The hook built by \<open>make_progress_hook(progress_id)\<close>. \<open>a or b\<close> on the byte counts
  takes \<open>b\<close> when \<open>a\<close> is \<open>None\<close> or zero.
\<close>

definition hook :: "unicode_db \<Rightarrow> pystr \<Rightarrow> hook_dict \<Rightarrow> effect list" where
  "hook db progress_id d =
     (if d_status d = Some (py ''downloading'') then
        [Emit progress_id
           (Downloading
              (strip_ansi (Some (strip db (or_empty (d_percent_str d)))))
              (strip_ansi (Some (or_empty (d_speed_str d))))
              (strip_ansi (Some (or_empty (d_eta_str d))))
              (d_downloaded_bytes d)
              (if or_zero (d_total_bytes d) \<noteq> 0 then d_total_bytes d else d_total_bytes_estimate d))]
      else if d_status d = Some (py ''finished'') then [Emit progress_id Finished]
      else [])"

section \<open>run\_download\<close>

text \<open>
  \<open>os.path.splitext(p)[0]\<close> on a POSIX path: the extension starts at the last dot of
  the last path component (after the last slash, 47), unless only dots (46) precede it
  in that component.
\<close>

definition splitext_root :: "pystr \<Rightarrow> pystr" where
  "splitext_root p =
     (let base = rev (takeWhile (\<lambda>c. c \<noteq> 47) (rev p));
          dir = rev (dropWhile (\<lambda>c. c \<noteq> 47) (rev p))
      in if 46 \<notin> set base then p
         else
           let stem = rev (tl (dropWhile (\<lambda>c. c \<noteq> 46) (rev base)))
           in if list_all (\<lambda>c. c = 46) stem then p else dir @ stem)"

text \<open>
  What the task meets outside the program: the progress callbacks the engine makes
  during \<open>extract_info\<close>, the outcome of \<open>extract_info\<close> and of \<open>prepare_filename\<close>,
  the size of the file at a path when the task looks (\<open>None\<close>: no such file), and the
  token that \<open>uuid.uuid4().hex\<close> yields.
\<close>

record download_env =
  hook_calls :: "hook_dict list"
  extract_result :: "info outcome"
  prepared :: "pystr outcome"
  file_size :: "pystr \<Rightarrow> nat option"
  new_token :: pystr

text \<open>
  The definitive path: the extension is forced to that of the requested format.
\<close>

definition final_path :: "pystr \<Rightarrow> pystr \<Rightarrow> pystr" where
  "final_path option p =
     (if option = py ''2'' then splitext_root p @ py ''.mp3''
      else splitext_root p @ py ''.mp4'')"

definition run_download ::
  "unicode_db \<Rightarrow> download_env \<Rightarrow> pystr \<Rightarrow> pystr \<Rightarrow> pystr \<Rightarrow> effect list" where
  "run_download db env url option progress_id =
     (let ext = (if option = py ''1'' then py ''mp4'' else py ''mp3'');
          called = ExtractInfo url True # concat (map (hook db progress_id) (hook_calls env))
      in case extract_result env of
           Raises e \<Rightarrow> called @ [Emit progress_id (Error e)]
         | Returns i \<Rightarrow>
             (case prepared env of
                Raises e \<Rightarrow> called @ [Emit progress_id (Error e)]
              | Returns p \<Rightarrow>
                  if file_size env (final_path option p) = None \<or>
                     file_size env (final_path option p) = Some 0
                  then called @
                          [Emit progress_id (Error (py ''The downloaded file is empty''))]
                  else
                    let title = sanitize_filename db
                                  (case info_title i of None \<Rightarrow> py ''download'' | Some t \<Rightarrow> t);
                        download_name = title @ py ''.'' @ ext
                    in called @
                       [Register (new_token env)
                          \<lparr> entry_path = final_path option p, entry_name = download_name \<rparr>,
                        Emit progress_id
                          (Ready (py ''/download/'' @ new_token env) download_name)]))"

section \<open>start\_download\<close>

definition start_download ::
  "unicode_db \<Rightarrow> pystr option \<Rightarrow> pystr option \<Rightarrow> pystr option \<Rightarrow> response \<times> effect list" where
  "start_download db form_url form_option form_progress_id =
     (let url = strip db (or_empty form_url);
          option = strip db (or_empty form_option);
          progress_id = strip db (or_empty form_progress_id)
      in if url = [] \<or> (option \<noteq> py ''1'' \<and> option \<noteq> py ''2'') \<or> progress_id = []
         then (Text (py ''Missing or invalid parameters'') 400, [])
         else (JsonStarted, [StartThread url option progress_id]))"

section \<open>download\_file and the token map\<close>

text \<open>
  The state the download endpoint works on: the dictionary \<open>DOWNLOAD_MAP\<close> and the
  files on disk (path to size).
\<close>

record world =
  DOWNLOAD_MAP :: "pystr \<rightharpoonup> entry"
  files :: "pystr \<rightharpoonup> nat"

text \<open>
  \<open>DOWNLOAD_MAP.pop(token, None)\<close>: one dictionary operation, which reads the entry
  and removes it.
\<close>

definition pop_token :: "pystr \<Rightarrow> world \<Rightarrow> entry option \<times> world" where
  "pop_token token w = (DOWNLOAD_MAP w token, w\<lparr>DOWNLOAD_MAP := (DOWNLOAD_MAP w)(token := None)\<rparr>)"

text \<open>
  The rest of the handler, once it holds an entry: the check that the file exists, and
  \<open>send_file\<close> with the \<open>cleanup\<close> that runs after the request. \<open>removed\<close> tells whether
  \<open>os.remove\<close> succeeded; its failure is caught and leaves the file.
\<close>

definition serve :: "bool \<Rightarrow> entry \<Rightarrow> world \<Rightarrow> response \<times> world" where
  "serve removed e w =
     (if files w (entry_path e) = None then (Text (py ''File not found'') 404, w)
      else (SendFile (entry_path e) (entry_name e),
            if removed then w\<lparr>files := (files w)(entry_path e := None)\<rparr> else w))"

definition download_file :: "bool \<Rightarrow> pystr \<Rightarrow> world \<Rightarrow> response \<times> world" where
  "download_file removed token w =
     (case pop_token token w of
        (None, w') \<Rightarrow> (Text (py ''Link expired or invalid'') 404, w')
      | (Some e, w') \<Rightarrow> serve removed e w')"

text \<open>The effect \<open>DOWNLOAD_MAP[token] = entry\<close> of the background task on the state.\<close>

definition register :: "pystr \<Rightarrow> entry \<Rightarrow> world \<Rightarrow> world" where
  "register token e w = w\<lparr>DOWNLOAD_MAP := (DOWNLOAD_MAP w)(token \<mapsto> e)\<rparr>"

subsection \<open>Handlers running concurrently\<close>

text \<open>
  The server runs each request on its own thread. A handler of \<open>download_file\<close> touches
  the shared dictionary once, in the \<open>pop\<close>, and then works on the entry it holds. A
  handler is therefore in one of three places: arrived with its token, holding what the
  \<open>pop\<close> gave it, or done with its response.
\<close>

datatype handler =
    Arrived pystr
  | Holding pystr entry
  | Done pystr response

fun handler_step :: "bool \<Rightarrow> handler \<Rightarrow> world \<Rightarrow> handler \<times> world" where
  "handler_step removed (Arrived token) w =
     (case pop_token token w of
        (None, w') \<Rightarrow> (Done token (Text (py ''Link expired or invalid'') 404), w')
      | (Some e, w') \<Rightarrow> (Holding token e, w'))"
| "handler_step removed (Holding token e) w =
     (case serve removed e w of (r, w') \<Rightarrow> (Done token r, w'))"
| "handler_step removed (Done token r) w = (Done token r, w)"

text \<open>
  One move of the scheduler: handler \<open>i\<close> takes its next step, or a background task
  registers a token.
\<close>

datatype move = Advance nat bool | Registers pystr entry

fun sched_step :: "move \<Rightarrow> handler list \<times> world \<Rightarrow> handler list \<times> world" where
  "sched_step (Advance i removed) (hs, w) =
     (if i < length hs
      then (case handler_step removed (hs ! i) w of (h', w') \<Rightarrow> (hs[i := h'], w'))
      else (hs, w))"
| "sched_step (Registers token e) (hs, w) = (hs, register token e w)"

definition run_schedule :: "move list \<Rightarrow> handler list \<times> world \<Rightarrow> handler list \<times> world" where
  "run_schedule ms cfg = fold sched_step ms cfg"

text \<open>A retrieval of token \<open>t\<close> that ended in \<open>send_file\<close>.\<close>

fun succeeded :: "pystr \<Rightarrow> handler \<Rightarrow> bool" where
  "succeeded t (Done token (SendFile p n)) = (token = t)"
| "succeeded t h = False"

fun registers_token :: "pystr \<Rightarrow> move \<Rightarrow> bool" where
  "registers_token t (Registers token e) = (token = t)"
| "registers_token t (Advance i removed) = False"

subsection \<open>Reading a list of effects\<close>

fun is_ready :: "effect \<Rightarrow> bool" where
  "is_ready (Emit room (Ready u f)) = True"
| "is_ready x = False"

fun is_error :: "effect \<Rightarrow> bool" where
  "is_error (Emit room (Error m)) = True"
| "is_error x = False"

fun is_register :: "effect \<Rightarrow> bool" where
  "is_register (Register token e) = True"
| "is_register x = False"

fun is_engine_call :: "effect \<Rightarrow> bool" where
  "is_engine_call (ExtractInfo u d) = True"
| "is_engine_call x = False"

fun is_thread_start :: "effect \<Rightarrow> bool" where
  "is_thread_start (StartThread u opt room) = True"
| "is_thread_start x = False"

text \<open>What an effect does to the state of the download endpoint.\<close>

fun perform :: "effect \<Rightarrow> world \<Rightarrow> world" where
  "perform (Register token e) w = register token e w"
| "perform x w = w"

section \<open>Concrete inputs\<close>

text \<open>
  A metadata dictionary with a title, three thumbnail candidates and an id; a progress
  callback announcing the end of the transfer; and three environments of a download
  job: the engine raises, the engine returns but leaves no file, and the engine returns
  and the converted file is there.
\<close>

definition example_thumbs :: "thumb list" where
  "example_thumbs =
     [\<lparr> th_url = Some (py ''https://i.example/a.jpg''), th_width = Some 100, th_height = Some 100 \<rparr>,
      \<lparr> th_url = Some (py ''//i.example/b.jpg''), th_width = Some 400, th_height = Some 200 \<rparr>,
      \<lparr> th_url = Some (py ''https://i.example/c.jpg''), th_width = Some 50, th_height = Some 900 \<rparr>]"

definition example_info :: info where
  "example_info =
     \<lparr> info_thumbnail = None, info_thumbnails = Some example_thumbs,
       info_id = Some (py ''dQw4w9WgXcQ''), info_title = Some (py ''My Song!'') \<rparr>"

definition finished_call :: hook_dict where
  "finished_call =
     \<lparr> d_status = Some (py ''finished''), d_percent_str = None, d_speed_str = None,
       d_eta_str = None, d_downloaded_bytes = None, d_total_bytes = None,
       d_total_bytes_estimate = None \<rparr>"

definition raising_env :: download_env where
  "raising_env =
     \<lparr> hook_calls = [finished_call], extract_result = Raises (py ''boom''),
       prepared = Raises [], file_size = (\<lambda>p. None), new_token = py ''0123abcd'' \<rparr>"

definition missing_env :: download_env where
  "missing_env =
     \<lparr> hook_calls = [finished_call], extract_result = Returns example_info,
       prepared = Returns (py ''/d/My Song!-ab12cd.webm''), file_size = (\<lambda>p. None),
       new_token = py ''0123abcd'' \<rparr>"

definition ready_env :: download_env where
  "ready_env =
     \<lparr> hook_calls = [finished_call], extract_result = Returns example_info,
       prepared = Returns (py ''/d/My Song!-ab12cd.webm''),
       file_size = (\<lambda>p. if p = py ''/d/My Song!-ab12cd.mp3'' then Some 4096 else None),
       new_token = py ''0123abcd'' \<rparr>"

section \<open>Properties of the request handlers and of the background task\<close>

subsection \<open>Auxiliary facts\<close>

lemma ascii_db_tables: "py_tables ascii_db"
  by (auto simp: py_tables_def ascii_db_def ascii_alnum_def ascii_space_def)

lemma strip_ascii_examples:
  "strip ascii_db (or_empty (Some (py '' u ''))) = py ''u''"
  "strip ascii_db (or_empty (Some (py ''2''))) = py ''2''"
  "strip ascii_db (or_empty (Some (py ''3''))) = py ''3''"
  "strip ascii_db (or_empty (Some (py ''room''))) = py ''room''"
  "strip ascii_db (or_empty (Some (py ''  ''))) = []"
  "strip ascii_db (or_empty None) = []"
  by (simp_all add: strip_def py_def ascii_db_def ascii_space_def or_empty_def)

lemma hook_effects:
  "filter is_ready (hook db room d) = []"
  "filter is_error (hook db room d) = []"
  "filter is_register (hook db room d) = []"
  "filter is_engine_call (hook db room d) = []"
  by (simp_all add: hook_def)

lemma hooks_effects:
  "filter is_ready (concat (map (hook db room) ds)) = []"
  "filter is_error (concat (map (hook db room) ds)) = []"
  "filter is_register (concat (map (hook db room) ds)) = []"
  "filter is_engine_call (concat (map (hook db room) ds)) = []"
  by (induction ds) (simp_all add: hook_effects)

lemma hooks_no_ready: "takeWhile (\<lambda>x. \<not> is_ready x) (concat (map (hook db room) ds) @ xs) =
    concat (map (hook db room) ds) @ takeWhile (\<lambda>x. \<not> is_ready x) xs"
proof -
  have "\<And>x. x \<in> set (concat (map (hook db room) ds)) \<Longrightarrow> \<not> is_ready x"
    using hooks_effects(1) [of db room ds] unfolding filter_empty_conv by blast
  then show ?thesis by (rule takeWhile_append2)
qed

lemma perform_hooks: "DOWNLOAD_MAP (fold perform (concat (map (hook db room) ds)) w) = DOWNLOAD_MAP w"
proof -
  have "\<And>w. DOWNLOAD_MAP (fold perform (hook db room d) w) = DOWNLOAD_MAP w" for d
    by (simp add: hook_def)
  then show ?thesis
    by (induction ds arbitrary: w) simp_all
qed

subsection \<open>The metadata endpoint\<close>

text \<open>
  Claim C8: a metadata request whose URL is empty after trimming (also a missing or
  whitespace-only URL) is answered with the client error 400 carrying
  \<open>No URL provided\<close>, and the list of effects is empty: the extraction engine is not
  called, whatever it would have answered.
\<close>

theorem get_info_empty_url:
  "strip db (or_empty data_url) = [] \<Longrightarrow>
   get_info db engine data_url = (JsonError (py ''No URL provided'') 400, [])"
  by (simp add: get_info_def)

theorem get_info_empty_url_witness:
  "strip ascii_db (or_empty (Some (py ''  ''))) = [] \<and>
   get_info ascii_db (Raises (py ''boom'')) (Some (py ''  '')) =
     (JsonError (py ''No URL provided'') 400, []) \<and>
   get_info ascii_db (Returns example_info) None = (JsonError (py ''No URL provided'') 400, [])"
proof -
  have a: "strip ascii_db (or_empty (Some (py ''  ''))) = []"
    by (rule strip_ascii_examples)
  have b: "strip ascii_db (or_empty None) = []"
    by (rule strip_ascii_examples)
  show ?thesis
    using a get_info_empty_url [OF a, of "Raises (py ''boom'')"]
      get_info_empty_url [OF b, of "Returns example_info"]
    by simp
qed

text \<open>
  Claim C9: when the extraction engine raises during a metadata lookup, whatever the
  exception and its text \<open>e\<close>, the handler answers with the server error 500 and the
  fixed message \<open>Could not fetch video info\<close>; the text of the exception is not part of
  the response.
\<close>

theorem get_info_engine_raises:
  "strip db (or_empty data_url) \<noteq> [] \<Longrightarrow>
   get_info db (Raises e) data_url =
     (JsonError (py ''Could not fetch video info'') 500,
      [ExtractInfo (strip db (or_empty data_url)) False])"
  by (simp add: get_info_def Let_def)

theorem get_info_engine_raises_witness:
  "strip ascii_db (or_empty (Some (py '' u ''))) \<noteq> [] \<and>
   get_info ascii_db (Raises (py ''ERROR: Unsupported URL'')) (Some (py '' u '')) =
     (JsonError (py ''Could not fetch video info'') 500, [ExtractInfo (py ''u'') False])"
proof -
  have a: "strip ascii_db (or_empty (Some (py '' u ''))) = py ''u''"
    by (rule strip_ascii_examples)
  then have b: "strip ascii_db (or_empty (Some (py '' u ''))) \<noteq> []"
    by (simp add: py_def)
  show ?thesis
    using b get_info_engine_raises [OF b, of "py ''ERROR: Unsupported URL''"] a by simp
qed

subsection \<open>Submitting a job\<close>

text \<open>
  Claim C7: \<open>start_download\<close> validates before it starts anything. If the URL is empty
  after trimming, or the format option (trimmed like the other two fields) is neither
  \<open>1\<close> nor \<open>2\<close>, or the channel id is empty after trimming, the answer is the client
  error 400 and there is no effect, so no thread is started. Otherwise the only effect
  is the start of one thread running \<open>run_download\<close> on the trimmed values, and the
  answer is the acknowledgment \<open>started\<close>; nothing the task does is part of the
  handler's effects.
\<close>

theorem start_download_validates:
  "start_download db form_url form_option form_progress_id =
     (if strip db (or_empty form_url) = [] \<or>
         strip db (or_empty form_option) \<notin> {py ''1'', py ''2''} \<or>
         strip db (or_empty form_progress_id) = []
      then (Text (py ''Missing or invalid parameters'') 400, [])
      else (JsonStarted,
            [StartThread (strip db (or_empty form_url)) (strip db (or_empty form_option))
               (strip db (or_empty form_progress_id))]))"
  by (simp add: start_download_def Let_def)

theorem start_download_validates_witness:
  "start_download ascii_db (Some (py '' u '')) (Some (py ''2'')) (Some (py ''room'')) =
     (JsonStarted, [StartThread (py ''u'') (py ''2'') (py ''room'')]) \<and>
   start_download ascii_db (Some (py '' u '')) (Some (py ''3'')) (Some (py ''room'')) =
     (Text (py ''Missing or invalid parameters'') 400, []) \<and>
   start_download ascii_db (Some (py ''  '')) (Some (py ''2'')) (Some (py ''room'')) =
     (Text (py ''Missing or invalid parameters'') 400, []) \<and>
   start_download ascii_db (Some (py '' u '')) (Some (py ''2'')) None =
     (Text (py ''Missing or invalid parameters'') 400, [])"
proof -
  have neq: "py ''u'' \<noteq> []" "py ''room'' \<noteq> []" "py ''3'' \<noteq> py ''1''" "py ''3'' \<noteq> py ''2''"
    "py ''2'' \<noteq> py ''1''"
    by (simp_all add: py_def)
  have a: "start_download ascii_db (Some (py '' u '')) (Some (py ''2'')) (Some (py ''room'')) =
     (JsonStarted, [StartThread (py ''u'') (py ''2'') (py ''room'')])"
    unfolding start_download_validates strip_ascii_examples using neq by simp
  have b: "start_download ascii_db (Some (py '' u '')) (Some (py ''3'')) (Some (py ''room'')) =
     (Text (py ''Missing or invalid parameters'') 400, [])"
    unfolding start_download_validates strip_ascii_examples using neq by simp
  have c: "start_download ascii_db (Some (py ''  '')) (Some (py ''2'')) (Some (py ''room'')) =
     (Text (py ''Missing or invalid parameters'') 400, [])"
    unfolding start_download_validates strip_ascii_examples using neq by simp
  have d: "start_download ascii_db (Some (py '' u '')) (Some (py ''2'')) None =
     (Text (py ''Missing or invalid parameters'') 400, [])"
    unfolding start_download_validates strip_ascii_examples using neq by simp
  from a b c d show ?thesis by blast
qed

subsection \<open>The background task\<close>

text \<open>
  Claim C3: when \<open>extract_info\<close> raises, the task's effects are the one call of the
  engine, the progress events of the callbacks made before the failure, and one error
  event with the text of the exception, sent to the job's channel id. There is exactly
  one error event, no token is registered, no ready event is published, and the engine
  is called once: there is no retry.
\<close>

theorem run_download_engine_raises:
  assumes "extract_result env = Raises e"
  shows "run_download db env url option progress_id =
           ExtractInfo url True # concat (map (hook db progress_id) (hook_calls env)) @
           [Emit progress_id (Error e)] \<and>
         filter is_error (run_download db env url option progress_id) =
           [Emit progress_id (Error e)] \<and>
         filter is_register (run_download db env url option progress_id) = [] \<and>
         filter is_ready (run_download db env url option progress_id) = [] \<and>
         filter is_engine_call (run_download db env url option progress_id) = [ExtractInfo url True]"
  using assms by (simp add: run_download_def Let_def hooks_effects)

theorem run_download_engine_raises_witness:
  "extract_result raising_env = Raises (py ''boom'') \<and>
   filter is_error (run_download ascii_db raising_env (py ''u'') (py ''2'') (py ''room'')) =
     [Emit (py ''room'') (Error (py ''boom''))] \<and>
   filter is_register (run_download ascii_db raising_env (py ''u'') (py ''2'') (py ''room'')) = [] \<and>
   filter is_ready (run_download ascii_db raising_env (py ''u'') (py ''2'') (py ''room'')) = [] \<and>
   filter is_engine_call (run_download ascii_db raising_env (py ''u'') (py ''2'') (py ''room'')) =
     [ExtractInfo (py ''u'') True]"
proof -
  have a: "extract_result raising_env = Raises (py ''boom'')"
    by (simp add: raising_env_def)
  show ?thesis
    using a run_download_engine_raises [OF a, of ascii_db "py ''u''" "py ''2''" "py ''room''"]
    by (simp add: hooks_effects)
qed

text \<open>
  Claim C4, as amended: when \<open>extract_info\<close> and \<open>prepare_filename\<close> return but the
  final file does not exist or has size zero, the task publishes one error event, whose
  message is \<open>The downloaded file is empty\<close>, and stops: no token is registered and no
  ready event is published.
\<close>

theorem run_download_empty_file:
  assumes "extract_result env = Returns i" and "prepared env = Returns p"
    and "file_size env (final_path option p) = None \<or> file_size env (final_path option p) = Some 0"
  shows "run_download db env url option progress_id =
           ExtractInfo url True # concat (map (hook db progress_id) (hook_calls env)) @
           [Emit progress_id (Error (py ''The downloaded file is empty''))] \<and>
         filter is_error (run_download db env url option progress_id) =
           [Emit progress_id (Error (py ''The downloaded file is empty''))] \<and>
         filter is_register (run_download db env url option progress_id) = [] \<and>
         filter is_ready (run_download db env url option progress_id) = []"
  using assms by (auto simp add: run_download_def Let_def hooks_effects)

theorem run_download_empty_file_witness:
  "extract_result missing_env = Returns example_info \<and>
   prepared missing_env = Returns (py ''/d/My Song!-ab12cd.webm'') \<and>
   file_size missing_env (final_path (py ''2'') (py ''/d/My Song!-ab12cd.webm'')) = None \<and>
   filter is_error (run_download ascii_db missing_env (py ''u'') (py ''2'') (py ''room'')) =
     [Emit (py ''room'') (Error (py ''The downloaded file is empty''))] \<and>
   filter is_register (run_download ascii_db missing_env (py ''u'') (py ''2'') (py ''room'')) = [] \<and>
   filter is_ready (run_download ascii_db missing_env (py ''u'') (py ''2'') (py ''room'')) = []"
proof -
  have a: "extract_result missing_env = Returns example_info"
    and b: "prepared missing_env = Returns (py ''/d/My Song!-ab12cd.webm'')"
    and c: "file_size missing_env (final_path (py ''2'') (py ''/d/My Song!-ab12cd.webm'')) = None \<or>
            file_size missing_env (final_path (py ''2'') (py ''/d/My Song!-ab12cd.webm'')) = Some 0"
    by (simp_all add: missing_env_def)
  have d: "file_size missing_env (final_path (py ''2'') (py ''/d/My Song!-ab12cd.webm'')) = None"
    by (simp add: missing_env_def)
  show ?thesis
    using a b d run_download_empty_file [OF a b c, of ascii_db "py ''u''" "py ''room''"]
    by (simp add: hooks_effects)
qed

text \<open>
  The message of that event is not the string \<open>empty file\<close>: with the engine returning
  and no file on disk, no event with that message is among the effects.
\<close>

theorem run_download_empty_file_counterexample:
  "extract_result missing_env = Returns example_info \<and>
   prepared missing_env = Returns (py ''/d/My Song!-ab12cd.webm'') \<and>
   file_size missing_env (final_path (py ''2'') (py ''/d/My Song!-ab12cd.webm'')) = None \<and>
   Emit (py ''room'') (Error (py ''empty file'')) \<notin>
     set (run_download ascii_db missing_env (py ''u'') (py ''2'') (py ''room''))"
  by code_simp

text \<open>
  Claim C2: for the audio option \<open>2\<close>, when \<open>extract_info\<close> and \<open>prepare_filename\<close>
  return and the final file exists with a size that is not zero, the task's effects end
  with the registration of the fresh token, mapped to the final path and the download
  name, followed by the ready event. That event is the only ready event; its URL carries
  the token; the token is in \<open>DOWNLOAD_MAP\<close> once the effects before the ready event
  are performed, from any state \<open>w\<close>; and the filename ends in \<open>.mp3\<close>.
\<close>

theorem run_download_audio_ready:
  assumes "extract_result env = Returns i" and "prepared env = Returns p"
    and "file_size env (splitext_root p @ py ''.mp3'') = Some n" and "0 < n"
  shows "let filename = sanitize_filename db
                          (case info_title i of None \<Rightarrow> py ''download'' | Some t \<Rightarrow> t) @ py ''.mp3'';
             e = \<lparr> entry_path = splitext_root p @ py ''.mp3'', entry_name = filename \<rparr>;
             effects = run_download db env url (py ''2'') progress_id
         in effects =
              ExtractInfo url True # concat (map (hook db progress_id) (hook_calls env)) @
              [Register (new_token env) e,
               Emit progress_id (Ready (py ''/download/'' @ new_token env) filename)] \<and>
            filter is_ready effects =
              [Emit progress_id (Ready (py ''/download/'' @ new_token env) filename)] \<and>
            DOWNLOAD_MAP (fold perform (takeWhile (\<lambda>x. \<not> is_ready x) effects) w) (new_token env) =
              Some e \<and>
            drop (length filename - 4) filename = py ''.mp3''"
proof -
  have ne: "py ''2'' \<noteq> py ''1''" by (simp add: py_def)
  have len: "length (py ''.mp3'') = 4" by (simp add: py_def)
  have dot: "py ''.'' @ py ''mp3'' = py ''.mp3''" by (simp add: py_def)
  have run: "run_download db env url (py ''2'') progress_id =
      ExtractInfo url True # concat (map (hook db progress_id) (hook_calls env)) @
      [Register (new_token env)
         \<lparr> entry_path = splitext_root p @ py ''.mp3'',
           entry_name = sanitize_filename db
              (case info_title i of None \<Rightarrow> py ''download'' | Some t \<Rightarrow> t) @ py ''.mp3'' \<rparr>,
       Emit progress_id (Ready (py ''/download/'' @ new_token env)
         (sanitize_filename db
              (case info_title i of None \<Rightarrow> py ''download'' | Some t \<Rightarrow> t) @ py ''.mp3''))]"
    using assms ne by (simp add: run_download_def Let_def final_path_def dot)
  show ?thesis
    unfolding Let_def run
    by (simp add: hooks_effects hooks_no_ready perform_hooks register_def len)
qed

lemma ready_env_values:
  "splitext_root (py ''/d/My Song!-ab12cd.webm'') @ py ''.mp3'' = py ''/d/My Song!-ab12cd.mp3''"
  "sanitize_filename ascii_db (py ''My Song!'') @ py ''.mp3'' = py ''My-Song.mp3''"
  "py ''/download/'' @ py ''0123abcd'' = py ''/download/0123abcd''"
  by code_simp+

theorem run_download_audio_ready_witness:
  "extract_result ready_env = Returns example_info \<and>
   prepared ready_env = Returns (py ''/d/My Song!-ab12cd.webm'') \<and>
   file_size ready_env (splitext_root (py ''/d/My Song!-ab12cd.webm'') @ py ''.mp3'') = Some 4096 \<and>
   run_download ascii_db ready_env (py ''u'') (py ''2'') (py ''room'') =
     [ExtractInfo (py ''u'') True, Emit (py ''room'') Finished,
      Register (py ''0123abcd'')
        \<lparr> entry_path = py ''/d/My Song!-ab12cd.mp3'', entry_name = py ''My-Song.mp3'' \<rparr>,
      Emit (py ''room'') (Ready (py ''/download/0123abcd'') (py ''My-Song.mp3''))] \<and>
   filter is_ready (run_download ascii_db ready_env (py ''u'') (py ''2'') (py ''room'')) =
     [Emit (py ''room'') (Ready (py ''/download/0123abcd'') (py ''My-Song.mp3''))] \<and>
   DOWNLOAD_MAP
     (fold perform
        (takeWhile (\<lambda>x. \<not> is_ready x)
           (run_download ascii_db ready_env (py ''u'') (py ''2'') (py ''room'')))
        \<lparr> DOWNLOAD_MAP = Map.empty, files = Map.empty \<rparr>)
     (py ''0123abcd'') =
     Some \<lparr> entry_path = py ''/d/My Song!-ab12cd.mp3'', entry_name = py ''My-Song.mp3'' \<rparr>"
proof -
  have a: "extract_result ready_env = Returns example_info"
    and b: "prepared ready_env = Returns (py ''/d/My Song!-ab12cd.webm'')"
    and t: "new_token ready_env = py ''0123abcd''"
    and h: "hook_calls ready_env = [finished_call]"
    by (simp_all add: ready_env_def)
  have c: "file_size ready_env (splitext_root (py ''/d/My Song!-ab12cd.webm'') @ py ''.mp3'') = Some 4096"
    unfolding ready_env_values by (simp add: ready_env_def)
  have d: "(0::nat) < 4096" by simp
  have i: "(case info_title example_info of None \<Rightarrow> py ''download'' | Some t \<Rightarrow> t) = py ''My Song!''"
    by (simp add: example_info_def)
  have k: "concat (map (hook ascii_db (py ''room'')) [finished_call]) = [Emit (py ''room'') Finished]"
    by code_simp
  show ?thesis
    using a b c
      run_download_audio_ready [OF a b c d, of ascii_db "py ''u''" "py ''room''"
        "\<lparr> DOWNLOAD_MAP = Map.empty, files = Map.empty \<rparr>"]
    unfolding Let_def i t h k ready_env_values
    by (simp add: register_def)
qed

end
